theory Spec2Isabelle
  imports Complex_Main "HOL-Library.AList" "HOL-Library.Option_ord"
begin

section \<open>Data model\<close>

text \<open>
  Quantities are Python floats in the source; they are idealised here as exact
  real numbers. A Python \<^verbatim>\<open>dict\<close> is an association list in insertion order:
  \<open>map_of\<close> reads it, \<open>AList.update\<close> is the assignment \<^verbatim>\<open>d[k] = v\<close> (in place when
  the key is present, appended otherwise), and a well-formed dict has distinct keys.
\<close>

type_synonym resources = "(string \<times> real) list"

type_synonym allocation = "(int \<times> resources) list"

text \<open>An agent is the dict with the keys \<^verbatim>\<open>id\<close>, \<^verbatim>\<open>family_name\<close>, \<^verbatim>\<open>value_type\<close>,
  \<^verbatim>\<open>members\<close> and \<^verbatim>\<open>labor_force\<close>.\<close>

record agent =
  agent_id :: int
  family_name :: string
  value_type :: string
  members :: int
  labor_force :: int

text \<open>
  The exceptions of the modelled code. \<open>StageError\<close> is whatever a negotiation stage
  raises. \<open>FloatNaN\<close> is no exception: it marks the point where the floats of the source
  become NaN, which the real numbers here cannot follow.
\<close>

datatype py_error = KeyError | ZeroDivisionError | StageError string | FloatNaN

text \<open>\<^verbatim>\<open>d.get(k, default)\<close>\<close>

definition dict_get :: "('k \<times> 'v) list \<Rightarrow> 'k \<Rightarrow> 'v \<Rightarrow> 'v" where
  "dict_get d k dflt = (case map_of d k of Some v \<Rightarrow> v | None \<Rightarrow> dflt)"

text \<open>\<^verbatim>\<open>sum(d.values())\<close>\<close>

definition dict_sum :: "('k \<times> real) list \<Rightarrow> real" where
  "dict_sum d = sum_list (map snd d)"

text \<open>\<^verbatim>\<open>sum(sum(a.values()) for a in allocation.values())\<close>\<close>

definition alloc_total :: "allocation \<Rightarrow> real" where
  "alloc_total d = sum_list (map (\<lambda>(aid, m). dict_sum m) d)"

text \<open>The value an allocation holds for an agent and a resource, if any.\<close>

definition alloc_get :: "allocation \<Rightarrow> int \<Rightarrow> string \<Rightarrow> real option" where
  "alloc_get d aid r = (case map_of d aid of None \<Rightarrow> None | Some m \<Rightarrow> map_of m r)"

text \<open>The keys of a dict built by assigning to each element of a list in turn: the
  distinct elements in the order of their first occurrence.\<close>

fun dict_keys_of :: "'k list \<Rightarrow> 'k list" where
  "dict_keys_of [] = []"
| "dict_keys_of (k # ks) = k # dict_keys_of (removeAll k ks)"

text \<open>Python's \<^verbatim>\<open>round\<close> on a float: to the nearest integer, a tie to the even one.\<close>

definition py_round :: "real \<Rightarrow> int" where
  "py_round x =
     (let f = \<lfloor>x\<rfloor>; d = x - of_int f
      in if d < 1 / 2 then f
         else if 1 / 2 < d then f + 1
         else if even f then f else f + 1)"

text \<open>Loops whose body may raise.\<close>

fun fold_err :: "('a \<Rightarrow> 's \<Rightarrow> py_error + 's) \<Rightarrow> 'a list \<Rightarrow> 's \<Rightarrow> py_error + 's" where
  "fold_err f [] s = Inr s"
| "fold_err f (x # xs) s = (case f x s of Inl e \<Rightarrow> Inl e | Inr s' \<Rightarrow> fold_err f xs s')"

section \<open>Integerization (distribution\_mechanisms.integerize\_distribution)\<close>

text \<open>
  The dicts \<^verbatim>\<open>real\<close> (here \<open>reals\<close>), \<^verbatim>\<open>base\<close>, \<^verbatim>\<open>frac\<close> and \<^verbatim>\<open>min_need\<close> of the source all have
  the agent ids as keys; they are functions of the id here, and a sum over the values
  of one of them is the sum over the distinct ids.
\<close>

definition grain_of :: "allocation \<Rightarrow> int \<Rightarrow> real" where
  "grain_of distribution_result aid = dict_get (dict_get distribution_result aid []) ''grain'' 0"

definition min_need_of :: "allocation \<Rightarrow> bool \<Rightarrow> int \<Rightarrow> int" where
  "min_need_of survival_needs enforce_min_survival aid =
     (if enforce_min_survival \<and> survival_needs \<noteq> [] then
        (let need = grain_of survival_needs aid
         in if 0 < need then \<lceil>need\<rceil> else 0)
      else 0)"

text \<open>The first loop and the "apply min floor" loop.\<close>

definition base_floor :: "(int \<Rightarrow> real) \<Rightarrow> (int \<Rightarrow> int) \<Rightarrow> int \<Rightarrow> int" where
  "base_floor reals min_need aid =
     (if \<lfloor>reals aid\<rfloor> < min_need aid then min_need aid else \<lfloor>reals aid\<rfloor>)"

definition frac_floor :: "(int \<Rightarrow> real) \<Rightarrow> (int \<Rightarrow> int) \<Rightarrow> int \<Rightarrow> real" where
  "frac_floor reals min_need aid =
     (if \<lfloor>reals aid\<rfloor> < min_need aid then 0 else reals aid - of_int \<lfloor>reals aid\<rfloor>)"

text \<open>\<^verbatim>\<open>while need > 0 and i < len(order): base[order[i]] += 1; need -= 1; i += 1\<close>\<close>

fun increment_loop :: "int list \<Rightarrow> (int \<Rightarrow> int) \<Rightarrow> int \<Rightarrow> (int \<Rightarrow> int)" where
  "increment_loop [] base need = base"
| "increment_loop (aid # order) base need =
     (if 0 < need then increment_loop order (base(aid := base aid + 1)) (need - 1)
      else base)"

text \<open>\<^verbatim>\<open>while excess > 0 and i < len(order):
    if base[aid] > min_need[aid]: base[aid] -= 1; excess -= 1
    i += 1\<close>\<close>

fun decrement_loop :: "int list \<Rightarrow> (int \<Rightarrow> int) \<Rightarrow> (int \<Rightarrow> int) \<Rightarrow> int \<Rightarrow> (int \<Rightarrow> int)" where
  "decrement_loop [] min_need base excess = base"
| "decrement_loop (aid # order) min_need base excess =
     (if 0 < excess then
        (if min_need aid < base aid
         then decrement_loop order min_need (base(aid := base aid - 1)) (excess - 1)
         else decrement_loop order min_need base excess)
      else base)"

text \<open>The integer grain of every agent id, after the correction towards the target.
  \<^verbatim>\<open>sorted\<close> is stable, also with \<^verbatim>\<open>reverse=True\<close>, as \<open>sort_key\<close> is.\<close>

definition integer_base :: "int list \<Rightarrow> (int \<Rightarrow> real) \<Rightarrow> (int \<Rightarrow> int) \<Rightarrow> int \<Rightarrow> int" where
  "integer_base agent_ids reals min_need =
     (let base = base_floor reals min_need;
          frac = frac_floor reals min_need;
          current_sum = sum_list (map reals (dict_keys_of agent_ids));
          target = py_round current_sum;
          base_sum = sum_list (map base (dict_keys_of agent_ids))
      in if base_sum < target then
           increment_loop (sort_key (\<lambda>a. - frac a) agent_ids) base (target - base_sum)
         else if target < base_sum then
           decrement_loop (sort_key frac agent_ids) min_need base (base_sum - target)
         else base)"

text \<open>The two closing loops: copy every agent's dict, then overwrite its grain.\<close>

definition assemble :: "int list \<Rightarrow> allocation \<Rightarrow> (int \<Rightarrow> int) \<Rightarrow> allocation" where
  "assemble agent_ids distribution_result base =
     (let out = fold (\<lambda>aid out. AList.update aid (dict_get distribution_result aid []) out)
                  agent_ids []
      in fold (\<lambda>aid out.
                 AList.update aid
                   (AList.update ''grain'' (of_int (base aid)) (dict_get out aid [])) out)
           agent_ids out)"

definition integerize_distribution ::
  "resources \<Rightarrow> agent list \<Rightarrow> allocation \<Rightarrow> allocation \<Rightarrow> bool \<Rightarrow> allocation" where
  "integerize_distribution total_resources agents distribution_result survival_needs
       enforce_min_survival =
     (if agents = [] \<or> distribution_result = [] then distribution_result
      else
        (let agent_ids = map agent_id agents;
             reals = grain_of distribution_result;
             min_need = min_need_of survival_needs enforce_min_survival
         in assemble agent_ids distribution_result (integer_base agent_ids reals min_need)))"

section \<open>Integerization in the session (CollaborativeNegotiation.\_integerize\_allocation)\<close>

text \<open>The same loops on the session's agents; the need of an agent is the sum of its
  survival needs, and the result holds grain only.\<close>

definition integerize_allocation ::
  "agent list \<Rightarrow> allocation \<Rightarrow> allocation \<Rightarrow> bool \<Rightarrow> allocation" where
  "integerize_allocation agents survival_needs allocation enforce_min_survival =
     (let agent_ids = map agent_id agents;
          real_values = grain_of allocation;
          min_need =
            (\<lambda>aid. if enforce_min_survival then
                      (let need = dict_sum (dict_get survival_needs aid [])
                       in if 0 < need then \<lceil>need\<rceil> else 0)
                    else 0);
          base = integer_base agent_ids real_values min_need
      in fold (\<lambda>aid new_alloc. AList.update aid [(''grain'', of_int (base aid))] new_alloc)
           agent_ids [])"

section \<open>Equal strategy (distribution\_mechanisms.equal\_distribution)\<close>

text \<open>The fractional allocation the function builds before it integerizes.\<close>

definition equal_fractional :: "resources \<Rightarrow> agent list \<Rightarrow> allocation" where
  "equal_fractional total_resources agents =
     (let num_families = length agents
      in fold (\<lambda>agent distribution_result.
                 AList.update (agent_id agent)
                   (fold (\<lambda>(resource_name, resource_amount) d.
                            AList.update resource_name (resource_amount / of_nat num_families) d)
                      total_resources [])
                   distribution_result)
           agents [])"

definition equal_distribution :: "resources \<Rightarrow> agent list \<Rightarrow> allocation" where
  "equal_distribution total_resources agents =
     (if length agents = 0 then []
      else integerize_distribution total_resources agents
             (equal_fractional total_resources agents) [] False)"

section \<open>ContributionBased strategy (distribution\_mechanisms.contribution\_based\_distribution)\<close>

text \<open>The survival map is optional in the source; \<^verbatim>\<open>None\<close> and the empty dict are both
  falsy there and both are \<open>[]\<close> here.\<close>

definition survival_resources_total :: "allocation \<Rightarrow> string \<Rightarrow> real" where
  "survival_resources_total minimum_survival_resources resource_name =
     (if minimum_survival_resources \<noteq> [] then
        sum_list (map (\<lambda>(aid, needs). dict_get needs resource_name 0) minimum_survival_resources)
      else 0)"

text \<open>\<^verbatim>\<open>base_survival_amount\<close> and \<^verbatim>\<open>labor_proportion\<close> of the loop body.\<close>

definition base_survival_amount :: "allocation \<Rightarrow> int \<Rightarrow> string \<Rightarrow> real" where
  "base_survival_amount minimum_survival_resources aid resource_name =
     (if minimum_survival_resources \<noteq> [] \<and> map_of minimum_survival_resources aid \<noteq> None
      then dict_get (dict_get minimum_survival_resources aid []) resource_name 0 else 0)"

definition labor_proportion :: "int \<Rightarrow> agent \<Rightarrow> real" where
  "labor_proportion total_labor_force agent =
     (if 0 < total_labor_force
      then of_int (labor_force agent) / of_int total_labor_force else 0)"

definition contribution_step ::
  "allocation \<Rightarrow> int \<Rightarrow> string \<Rightarrow> real \<Rightarrow> agent \<Rightarrow> allocation \<Rightarrow> allocation" where
  "contribution_step minimum_survival_resources total_labor_force resource_name
       distributable_resources agent distribution_result =
     (let aid = agent_id agent;
          distribution_result =
            (if map_of distribution_result aid = None
             then AList.update aid [] distribution_result else distribution_result);
          contribution_amount =
            labor_proportion total_labor_force agent * distributable_resources
      in AList.update aid
           (AList.update resource_name
              (base_survival_amount minimum_survival_resources aid resource_name
                 + contribution_amount)
              (dict_get distribution_result aid []))
           distribution_result)"

definition contribution_fractional :: "resources \<Rightarrow> agent list \<Rightarrow> allocation \<Rightarrow> allocation" where
  "contribution_fractional total_resources agents minimum_survival_resources =
     (let total_labor_force = sum_list (map labor_force agents)
      in fold (\<lambda>(resource_name, total_amount) distribution_result.
                 (let distributable_resources =
                        max 0 (total_amount
                                 - survival_resources_total minimum_survival_resources resource_name)
                  in fold (contribution_step minimum_survival_resources total_labor_force
                             resource_name distributable_resources)
                       agents distribution_result))
           total_resources [])"

definition contribution_based_distribution ::
  "resources \<Rightarrow> agent list \<Rightarrow> allocation \<Rightarrow> allocation" where
  "contribution_based_distribution total_resources agents minimum_survival_resources =
     (if agents = [] then []
      else if sum_list (map labor_force agents) = 0 then equal_distribution total_resources agents
      else integerize_distribution total_resources agents
             (contribution_fractional total_resources agents minimum_survival_resources)
             minimum_survival_resources False)"

section \<open>Altruistic strategy (distribution\_mechanisms.altruistic\_distribution)\<close>

text \<open>A dependency ratio is a float or \<^verbatim>\<open>float('inf')\<close>.\<close>

datatype ratio = Finite real | Infinite

definition dependency_ratio :: "agent \<Rightarrow> ratio" where
  "dependency_ratio agent =
     (if 0 < labor_force agent
      then Finite (of_int (members agent) / of_int (labor_force agent)) else Infinite)"

text \<open>\<^verbatim>\<open>sum(dependency_ratios.values())\<close>\<close>

fun ratio_sum :: "ratio list \<Rightarrow> ratio" where
  "ratio_sum [] = Finite 0"
| "ratio_sum (Infinite # rs) = Infinite"
| "ratio_sum (Finite x # rs) = (case ratio_sum rs of Finite s \<Rightarrow> Finite (x + s) | Infinite \<Rightarrow> Infinite)"

text \<open>
  \<^verbatim>\<open>dependency_ratio / sum(dependency_ratios.values())\<close>. A finite ratio over a zero sum
  raises; over an infinite sum it is 0. An infinite ratio makes the sum infinite, and
  \<^verbatim>\<open>inf / inf\<close> is NaN: the source carries on with NaN amounts, which a real-valued
  allocation cannot hold, and the model stops with \<open>FloatNaN\<close>.
\<close>

definition share_of_ratio :: "ratio \<Rightarrow> ratio \<Rightarrow> py_error + real" where
  "share_of_ratio r ratios_total =
     (case r of
        Infinite \<Rightarrow> Inl FloatNaN
      | Finite x \<Rightarrow>
          (case ratios_total of
             Infinite \<Rightarrow> Inr 0
           | Finite s \<Rightarrow> if s = 0 then Inl ZeroDivisionError else Inr (x / s)))"

text \<open>The sort key of \<^verbatim>\<open>sorted(agents, key=..., reverse=True)\<close>: descending ratios,
  the infinite ones first, agents of equal ratio in their original order.\<close>

definition descending_key :: "ratio \<Rightarrow> real option" where
  "descending_key r = (case r of Infinite \<Rightarrow> None | Finite x \<Rightarrow> Some (- x))"

definition survival_first ::
  "allocation \<Rightarrow> int \<Rightarrow> string \<Rightarrow> allocation \<times> resources \<Rightarrow> allocation \<times> resources" where
  "survival_first survival_needs aid resource_name state =
     (let (distribution_result, remaining_resources) = state;
          survival_need = dict_get (dict_get survival_needs aid []) resource_name 0;
          allocated = min survival_need (dict_get remaining_resources resource_name 0)
      in (AList.update aid
            (AList.update resource_name allocated (dict_get distribution_result aid []))
            distribution_result,
          AList.update resource_name
            (dict_get remaining_resources resource_name 0 - allocated) remaining_resources))"

definition leftover_share ::
  "(int \<times> ratio) list \<Rightarrow> int \<Rightarrow> string \<Rightarrow> allocation \<times> resources
     \<Rightarrow> py_error + allocation \<times> resources" where
  "leftover_share dependency_ratios aid resource_name state =
     (let (distribution_result, remaining_resources) = state;
          remaining_amount = dict_get remaining_resources resource_name 0
      in if remaining_amount \<le> 0 then Inr state
         else
           (case share_of_ratio (dict_get dependency_ratios aid Infinite)
                   (ratio_sum (map snd dependency_ratios)) of
              Inl e \<Rightarrow> Inl e
            | Inr share \<Rightarrow>
                (let additional_share = min (remaining_amount * share) remaining_amount
                 in Inr (AList.update aid
                           (AList.update resource_name
                              (dict_get (dict_get distribution_result aid []) resource_name 0
                                 + additional_share)
                              (dict_get distribution_result aid []))
                           distribution_result,
                         AList.update resource_name (remaining_amount - additional_share)
                           remaining_resources))))"

definition altruistic_distribution ::
  "resources \<Rightarrow> agent list \<Rightarrow> allocation \<Rightarrow> py_error + allocation" where
  "altruistic_distribution total_resources agents survival_needs =
     (let dependency_ratios =
            fold (\<lambda>agent d. AList.update (agent_id agent) (dependency_ratio agent) d) agents [];
          sorted_agents =
            sort_key (\<lambda>agent. descending_key (dict_get dependency_ratios (agent_id agent) Infinite))
              agents;
          resource_names = map fst total_resources;
          state =
            fold (\<lambda>agent (distribution_result, remaining_resources).
                    fold (survival_first survival_needs (agent_id agent)) resource_names
                      (AList.update (agent_id agent) [] distribution_result, remaining_resources))
              sorted_agents ([], total_resources)
      in case fold_err (\<lambda>agent. fold_err (leftover_share dependency_ratios (agent_id agent))
                                     resource_names)
                sorted_agents state of
           Inl e \<Rightarrow> Inl e
         | Inr (distribution_result, remaining_resources) \<Rightarrow> Inr distribution_result)"

section \<open>NeedsBased strategy (distribution\_mechanisms.needs\_based\_distribution)\<close>

text \<open>
  The optional arguments \<^verbatim>\<open>round_number\<close> and \<^verbatim>\<open>previous_distribution\<close> are never read and
  are left out; the survival map is read by the initial test and by the integerization.

  The amount an allocation holds for an agent and a resource, 0 where it holds none:
  \<^verbatim>\<open>d.get(agent_id, {}).get(resource_name, 0)\<close>, and \<^verbatim>\<open>d[agent_id][resource_name]\<close> after the
  loops that set the entry.
\<close>

definition amount_of :: "allocation \<Rightarrow> int \<Rightarrow> string \<Rightarrow> real" where
  "amount_of distribution_result aid resource_name =
     dict_get (dict_get distribution_result aid []) resource_name 0"

text \<open>\<^verbatim>\<open>distribution_result[agent_id][resource_name] += amount\<close>, which raises when the
  agent or the resource has no entry yet.\<close>

definition add_amount :: "int \<Rightarrow> string \<Rightarrow> real \<Rightarrow> allocation \<Rightarrow> py_error + allocation" where
  "add_amount aid resource_name amount distribution_result =
     (case map_of distribution_result aid of
        None \<Rightarrow> Inl KeyError
      | Some m \<Rightarrow>
          (case map_of m resource_name of
             None \<Rightarrow> Inl KeyError
           | Some v \<Rightarrow>
               Inr (AList.update aid (AList.update resource_name (v + amount) m)
                      distribution_result)))"

text \<open>The generator sum over all agents in the loop body; its division raises for an
  agent without members.\<close>

definition total_special_need_weight :: "agent list \<Rightarrow> py_error + real" where
  "total_special_need_weight agents =
     (if \<exists>a \<in> set agents. members a = 0 then Inl ZeroDivisionError
      else Inr (sum_list (map (\<lambda>a.
                  (if of_int (labor_force a) / of_int (members a) < (1 / 2 :: real) then 1 else 0)
                    * (1 / 2 - of_int (labor_force a) / of_int (members a)) * 2) agents)))"

text \<open>Stage one: 70 percent of the pool by population share.\<close>

definition basic_step :: "int \<Rightarrow> string \<Rightarrow> real \<Rightarrow> agent \<Rightarrow> allocation \<Rightarrow> allocation" where
  "basic_step total_members resource_name basic_resource_pool agent distribution_result =
     (let aid = agent_id agent;
          population_ratio = of_int (members agent) / of_int total_members;
          basic_allocation = basic_resource_pool * population_ratio;
          distribution_result =
            (if map_of distribution_result aid = None
             then AList.update aid [] distribution_result else distribution_result)
      in AList.update aid
           (AList.update resource_name basic_allocation (dict_get distribution_result aid []))
           distribution_result)"

text \<open>Stage two: 30 percent of the pool by population, labor and dependency weights.
  The \<^verbatim>\<open>print\<close> calls that end the loop body read entries and divide by \<^verbatim>\<open>members\<close>
  only where the statements before them have already raised, so they add no branch.\<close>

definition additional_step ::
  "int \<Rightarrow> int \<Rightarrow> agent list \<Rightarrow> string \<Rightarrow> real \<Rightarrow> agent \<Rightarrow> allocation \<Rightarrow> py_error + allocation" where
  "additional_step total_members total_labor agents resource_name remaining_resource_pool agent
       distribution_result =
     (let labor_density =
            (if 0 < members agent then of_int (labor_force agent) / of_int (members agent) else 0);
          special_need_weight =
            (if labor_density < 1 / 2 then (1 / 2 - labor_density) * 2 else 0);
          population_share =
            (if 0 < total_members
             then (of_int (members agent) / of_int total_members) * (1 / 2) else 0);
          labor_share =
            (if 0 < total_labor
             then (of_int (labor_force agent) / of_int total_labor) * (3 / 10) else 0)
      in case total_special_need_weight agents of
           Inl e \<Rightarrow> Inl e
         | Inr total_weight \<Rightarrow>
             (let special_share =
                    (if 0 < total_weight then (special_need_weight / total_weight) * (1 / 5) else 0);
                  total_share = population_share + labor_share + special_share;
                  additional_allocation = remaining_resource_pool * total_share
              in add_amount (agent_id agent) resource_name additional_allocation
                   distribution_result))"

definition per_capita_of :: "allocation \<Rightarrow> string \<Rightarrow> agent \<Rightarrow> real" where
  "per_capita_of distribution_result resource_name agent =
     (if 0 < members agent
      then amount_of distribution_result (agent_id agent) resource_name / of_int (members agent)
      else 0)"

text \<open>Stage three, for one resource: the per-capita floor of 3.5.\<close>

definition minimum_line ::
  "int \<Rightarrow> agent list \<Rightarrow> string \<times> real \<Rightarrow> allocation \<Rightarrow> py_error + allocation" where
  "minimum_line total_members agents resource distribution_result =
     (let (resource_name, total_amount) = resource;
          min_per_capita = 7 / 2;
          adjustments =
            map (\<lambda>agent. (agent_id agent,
                   (min_per_capita - per_capita_of distribution_result resource_name agent)
                     * of_int (members agent)))
              (filter (\<lambda>agent. per_capita_of distribution_result resource_name agent
                                 < min_per_capita) agents)
      in if adjustments = [] then Inr distribution_result
         else if total_members = 0 then Inl ZeroDivisionError
         else
           (let total_shortage = sum_list (map snd adjustments);
                avg_per_capita = total_amount / of_int total_members;
                donors =
                  map (\<lambda>agent. (agent_id agent,
                         (per_capita_of distribution_result resource_name agent - avg_per_capita)
                           * of_int (members agent) * (3 / 10)))
                    (filter (\<lambda>agent. avg_per_capita
                                       < per_capita_of distribution_result resource_name agent)
                       agents);
                total_surplus = sum_list (map snd donors)
            in if 0 < total_surplus then
                 (if total_shortage = 0 then Inl ZeroDivisionError
                  else
                    (let compensated =
                           fold (\<lambda>(aid, shortage) d.
                                   AList.update aid
                                     (AList.update resource_name
                                        (amount_of d aid resource_name
                                           + (shortage / total_shortage)
                                               * min total_surplus total_shortage)
                                        (dict_get d aid [])) d)
                             adjustments distribution_result
                     in Inr (fold (\<lambda>(donor_id, surplus) d.
                                     AList.update donor_id
                                       (AList.update resource_name
                                          (amount_of d donor_id resource_name
                                             - (surplus / total_surplus)
                                                 * min total_surplus total_shortage)
                                          (dict_get d donor_id [])) d)
                               donors compensated)))
               else Inr distribution_result))"

definition needs_based_fractional :: "resources \<Rightarrow> agent list \<Rightarrow> py_error + allocation" where
  "needs_based_fractional total_resources agents =
     (let total_members = sum_list (map members agents);
          total_labor = sum_list (map labor_force agents)
      in case fold_err
                (\<lambda>(resource_name, total_amount) distribution_result.
                   (let basic_resource_pool = total_amount * (7 / 10);
                        distribution_result =
                          (if 0 < total_members
                           then fold (basic_step total_members resource_name basic_resource_pool)
                                  agents distribution_result
                           else distribution_result);
                        remaining_resource_pool = total_amount * (3 / 10)
                    in fold_err (additional_step total_members total_labor agents resource_name
                                   remaining_resource_pool)
                         agents distribution_result))
                total_resources [] of
           Inl e \<Rightarrow> Inl e
         | Inr distribution_result \<Rightarrow>
             fold_err (minimum_line total_members agents) total_resources distribution_result)"

definition needs_based_distribution ::
  "resources \<Rightarrow> agent list \<Rightarrow> allocation \<Rightarrow> py_error + allocation" where
  "needs_based_distribution total_resources agents survival_needs =
     (if agents = [] \<or> survival_needs = [] then Inr []
      else
        (case needs_based_fractional total_resources agents of
           Inl e \<Rightarrow> Inl e
         | Inr distribution_result \<Rightarrow>
             Inr (integerize_distribution total_resources agents distribution_result
                    survival_needs True)))"

section \<open>Pragmatic strategy (distribution\_mechanisms.pragmatic\_distribution)\<close>

text \<open>The weighted blend of the three strategies' results, which are integerized already;
  an exception of the NeedsBased strategy passes through.\<close>

definition pragmatic_distribution ::
  "resources \<Rightarrow> agent list \<Rightarrow> allocation \<Rightarrow> py_error + allocation" where
  "pragmatic_distribution total_resources agents survival_needs =
     (let survival_weight = 4 / 10; equality_weight = 3 / 10; merit_weight = 3 / 10
      in case needs_based_distribution total_resources agents survival_needs of
           Inl e \<Rightarrow> Inl e
         | Inr survival_allocation \<Rightarrow>
             (let equality_allocation = equal_distribution total_resources agents;
                  merit_allocation =
                    contribution_based_distribution total_resources agents survival_needs
              in Inr (fold (\<lambda>agent final_allocation.
                              AList.update (agent_id agent)
                                (fold (\<lambda>resource_name m.
                                         AList.update resource_name
                                           (amount_of survival_allocation (agent_id agent) resource_name
                                                * survival_weight
                                              + amount_of equality_allocation (agent_id agent) resource_name
                                                  * equality_weight
                                              + amount_of merit_allocation (agent_id agent) resource_name
                                                  * merit_weight) m)
                                   (map fst total_resources) [])
                                final_allocation)
                        agents [])))"

section \<open>Gini coefficient (evaluation\_system.calculate\_gini\_coefficient)\<close>

definition calculate_gini_coefficient :: "real list \<Rightarrow> real" where
  "calculate_gini_coefficient distribution =
     (if distribution = [] \<or> sum_list distribution = 0 then 0
      else
        (let sorted_dist = sort distribution;
             n = length sorted_dist;
             numerator = sum_list (map (\<lambda>i. (of_nat i + 1) * sorted_dist ! i) [0..<n]);
             denominator = sum_list sorted_dist * of_nat n
         in if denominator = 0 then 0
            else 2 * numerator / denominator - (of_nat n + 1) / of_nat n))"

section \<open>Re-normalization (CollaborativeNegotiation.\_validate\_and\_optimize)\<close>

text \<open>\<open>total_grain\<close> is \<^verbatim>\<open>self.total_grain = total_resources.get("grain", 0)\<close>. The division
  raises when the allocation sums to zero.\<close>

definition validate_and_optimize :: "real \<Rightarrow> allocation \<Rightarrow> py_error + allocation" where
  "validate_and_optimize total_grain allocation =
     (let total_allocated = alloc_total allocation
      in if 1 / 100 < \<bar>total_allocated - total_grain\<bar> then
           (if total_allocated = 0 then Inl ZeroDivisionError
            else
              (let adjustment_factor = total_grain / total_allocated
               in Inr (map (\<lambda>(aid, m). (aid, map (\<lambda>(resource, v). (resource, v * adjustment_factor)) m))
                         allocation)))
         else Inr allocation)"

text \<open>The uniform rescaling the specification describes: every entry times a factor.\<close>

definition scale_allocation :: "real \<Rightarrow> allocation \<Rightarrow> allocation" where
  "scale_allocation c allocation =
     map (\<lambda>(aid, m). (aid, map (\<lambda>(resource, v). (resource, v * c)) m)) allocation"

section \<open>Principles: the persuasion round\<close>

text \<open>
  The six canonical principle names that \<^verbatim>\<open>_normalize_principle_name\<close> returns (Chinese
  string literals in the source, here under the names the specification gives them), and
  any other text, which that function returns as it is.
\<close>

datatype principle =
  Needs_first | Merit_based | Equal_share | Protect_vulnerable | Efficiency | Sustainability
  | Other string

text \<open>The test of the \<^verbatim>\<open>if\<close>/\<^verbatim>\<open>elif\<close> chain of \<^verbatim>\<open>_evaluate_persuasion_effect\<close>: the branches
  are on the principle name, so at most one applies.\<close>

fun value_aligned :: "principle \<Rightarrow> string \<Rightarrow> bool" where
  "value_aligned Needs_first agent_value = (agent_value \<in> set [''needs_based'', ''altruistic''])"
| "value_aligned Merit_based agent_value = (agent_value \<in> set [''merit_based'', ''pragmatic''])"
| "value_aligned Equal_share agent_value = (agent_value \<in> set [''egalitarian'', ''altruistic''])"
| "value_aligned Protect_vulnerable agent_value = (agent_value \<in> set [''altruistic'', ''needs_based''])"
| "value_aligned Efficiency agent_value = (agent_value \<in> set [''merit_based'', ''pragmatic''])"
| "value_aligned Sustainability agent_value = (agent_value = ''pragmatic'')"
| "value_aligned (Other s) agent_value = False"

text \<open>The persuasion text is an argument and is never read.\<close>

definition evaluate_persuasion_effect :: "string \<Rightarrow> agent list \<Rightarrow> principle \<Rightarrow> nat" where
  "evaluate_persuasion_effect persuasion others principle_name =
     fold (\<lambda>agent convinced_count.
             if value_aligned principle_name (value_type agent)
             then convinced_count + 1 else convinced_count)
       others 0"

datatype discussion_result =
  Insufficient_support | Adopted nat | Not_adopted nat | No_result

text \<open>
  \<open>normalize_name\<close> stands for \<^verbatim>\<open>_normalize_principle_name\<close> (keyword matching on the oracle's
  text) and \<open>generate_persuasion\<close> for the oracle call \<^verbatim>\<open>_generate_principle_persuasion\<close>;
  \<open>principle_preferences\<close> maps an agent id to the principles the agent named. Reading
  the preferences of an agent that has none raises \<^verbatim>\<open>KeyError\<close>.
\<close>

definition moderate_principle_discussion ::
  "(string \<Rightarrow> principle) \<Rightarrow> (agent \<Rightarrow> principle \<Rightarrow> string) \<Rightarrow> agent list \<Rightarrow> principle
     \<Rightarrow> (int \<times> string list) list \<Rightarrow> py_error + discussion_result" where
  "moderate_principle_discussion normalize_name generate_persuasion agents principle_name
       principle_preferences =
     (if \<exists>agent \<in> set agents. map_of principle_preferences (agent_id agent) = None
      then Inl KeyError
      else
        (let supports = (\<lambda>agent. principle_name \<in>
                           set (map normalize_name (dict_get principle_preferences (agent_id agent) [])));
             supporters = filter supports agents;
             others = filter (\<lambda>agent. \<not> supports agent) agents
         in if length supporters \<le> 1 then Inr Insufficient_support
            else if supporters \<noteq> [] then
              (let advocate = hd supporters;
                   persuasion = generate_persuasion advocate principle_name;
                   convinced_count = evaluate_persuasion_effect persuasion others principle_name;
                   total_support = length supporters + convinced_count
               in if length agents div 2 + 1 \<le> total_support
                  then Inr (Adopted total_support) else Inr (Not_adopted total_support))
            else Inr No_result))"

text \<open>The supporters of a principle, the other agents, and the count the value-alignment
  table gives among a list of agents, as the specification words them.\<close>

definition supporters_of ::
  "(string \<Rightarrow> principle) \<Rightarrow> (int \<times> string list) list \<Rightarrow> principle \<Rightarrow> agent list \<Rightarrow> agent list" where
  "supporters_of normalize_name principle_preferences principle_name agents =
     filter (\<lambda>agent. principle_name \<in>
               set (map normalize_name (dict_get principle_preferences (agent_id agent) [])))
       agents"

definition non_supporters_of ::
  "(string \<Rightarrow> principle) \<Rightarrow> (int \<times> string list) list \<Rightarrow> principle \<Rightarrow> agent list \<Rightarrow> agent list" where
  "non_supporters_of normalize_name principle_preferences principle_name agents =
     filter (\<lambda>agent. principle_name \<notin>
               set (map normalize_name (dict_get principle_preferences (agent_id agent) [])))
       agents"

definition convinced :: "principle \<Rightarrow> agent list \<Rightarrow> nat" where
  "convinced principle_name others =
     length (filter (\<lambda>agent. value_aligned principle_name (value_type agent)) others)"

section \<open>The session and its fallback (CollaborativeNegotiation.run\_collaborative\_negotiation)\<close>

text \<open>\<^verbatim>\<open>_create_fallback_proposal\<close>; the division raises for an empty agent list.\<close>

definition create_fallback_proposal :: "agent list \<Rightarrow> real \<Rightarrow> py_error + allocation" where
  "create_fallback_proposal agents total_grain =
     (if length agents = 0 then Inl ZeroDivisionError
      else
        (let per_family = total_grain / of_nat (length agents)
         in Inr (fold (\<lambda>agent d. AList.update (agent_id agent) [(''grain'', per_family)] d)
                   agents [])))"

record negotiation_data =
  success :: bool
  session_method :: string
  stages_completed :: "string list"

text \<open>
  The four stages consult the oracle; they are parameters here, each returning its
  result or the exception it raised. \<open>stages_completed\<close> are the keys of
  \<^verbatim>\<open>self.stage_results\<close> at the time the data is created.
\<close>

record ('p, 'f) stages =
  establish_principles :: "py_error + 'p"
  negotiate_framework :: "'p \<Rightarrow> py_error + 'f"
  build_detailed_proposal :: "'f \<Rightarrow> py_error + allocation"
  finalize_proposal :: "allocation \<Rightarrow> py_error + allocation"

definition error_fallback ::
  "agent list \<Rightarrow> real \<Rightarrow> string list \<Rightarrow> py_error + allocation \<times> negotiation_data" where
  "error_fallback agents total_grain completed =
     (case create_fallback_proposal agents total_grain of
        Inl e \<Rightarrow> Inl e
      | Inr fallback_proposal \<Rightarrow>
          Inr (fallback_proposal,
               \<lparr>success = False, session_method = ''error_fallback'', stages_completed = completed\<rparr>))"

definition run_collaborative_negotiation ::
  "('p, 'f) stages \<Rightarrow> agent list \<Rightarrow> resources \<Rightarrow> py_error + allocation \<times> negotiation_data" where
  "run_collaborative_negotiation st agents total_resources =
     (let total_grain = dict_get total_resources ''grain'' 0
      in case establish_principles st of
           Inl e \<Rightarrow> error_fallback agents total_grain []
         | Inr principles \<Rightarrow>
             (case negotiate_framework st principles of
                Inl e \<Rightarrow> error_fallback agents total_grain [''principles'']
              | Inr framework \<Rightarrow>
                  (case build_detailed_proposal st framework of
                     Inl e \<Rightarrow> error_fallback agents total_grain [''principles'', ''framework'']
                   | Inr detailed_proposal \<Rightarrow>
                       (case finalize_proposal st detailed_proposal of
                          Inl e \<Rightarrow>
                            error_fallback agents total_grain
                              [''principles'', ''framework'', ''detailed_proposal'']
                        | Inr final_proposal \<Rightarrow>
                            Inr (final_proposal,
                                 \<lparr>success = True, session_method = ''collaborative_consensus'',
                                  stages_completed =
                                    [''principles'', ''framework'', ''detailed_proposal'']\<rparr>)))))"

text \<open>Whether some stage of the session raises.\<close>

definition stage_raises :: "('p, 'f) stages \<Rightarrow> bool" where
  "stage_raises st =
     (case establish_principles st of
        Inl e \<Rightarrow> True
      | Inr principles \<Rightarrow>
          (case negotiate_framework st principles of
             Inl e \<Rightarrow> True
           | Inr framework \<Rightarrow>
               (case build_detailed_proposal st framework of
                  Inl e \<Rightarrow> True
                | Inr detailed_proposal \<Rightarrow>
                    (case finalize_proposal st detailed_proposal of
                       Inl e \<Rightarrow> True
                     | Inr final_proposal \<Rightarrow> False))))"

text \<open>The fallback the specification describes: every agent holds \<open>total_grain / n\<close> of grain
  and nothing else.\<close>

definition equal_grain_shares :: "agent list \<Rightarrow> real \<Rightarrow> allocation" where
  "equal_grain_shares agents total_grain =
     map (\<lambda>agent. (agent_id agent, [(''grain'', total_grain / of_nat (length agents))])) agents"


section \<open>Totals of allocations\<close>


text \<open>A Python dict holds a key once; so does the association list of every agent and
  every resource that the loops build.\<close>

definition wf_alloc :: "allocation \<Rightarrow> bool" where
  "wf_alloc d \<longleftrightarrow> distinct (map fst d) \<and> (\<forall>p \<in> set d. distinct (map fst (snd p)))"




section \<open>Concrete agents for the worked examples\<close>

definition mk_agent :: "int \<Rightarrow> string \<Rightarrow> int \<Rightarrow> int \<Rightarrow> agent" where
  "mk_agent i v m l =
     \<lparr>agent_id = i, family_name = [], value_type = v, members = m, labor_force = l\<rparr>"

text \<open>A normaliser, an oracle reply and a session whose third stage raises.\<close>

definition example_normalize :: "string \<Rightarrow> principle" where
  "example_normalize s = (if s = ''needs'' then Needs_first else Other s)"

definition example_persuasion :: "agent \<Rightarrow> principle \<Rightarrow> string" where
  "example_persuasion advocate principle_name = ''please support this principle''"

definition example_stages :: "(unit, unit) stages" where
  "example_stages =
     \<lparr>establish_principles = Inr (),
      negotiate_framework = (\<lambda>principles. Inr ()),
      build_detailed_proposal = (\<lambda>framework. Inl (StageError ''oracle reply could not be parsed'')),
      finalize_proposal = (\<lambda>detailed_proposal. Inr detailed_proposal)\<rparr>"

section \<open>Dicts built by loops\<close>

lemma map_of_fold_update_const:
  "map_of (fold (\<lambda>x d. AList.update (key x) c d) xs acc) k =
     (if k \<in> key ` set xs then Some c else map_of acc k)"
  by (induction xs arbitrary: acc) (auto simp: update_conv')

lemma map_of_fold_update_key:
  "map_of (fold (\<lambda>k d. AList.update k (f k) d) ks acc) k =
     (if k \<in> set ks then Some (f k) else map_of acc k)"
  by (induction ks arbitrary: acc) (auto simp: update_conv')

lemma map_of_fold_grain:
  "map_of (fold (\<lambda>aid out. AList.update aid
                   (AList.update g (v aid) (dict_get out aid [])) out) ks out) k =
     (if k \<in> set ks then Some (AList.update g (v k) (dict_get out k [])) else map_of out k)"
proof (induction ks arbitrary: out)
  case Nil
  then show ?case by simp
next
  case (Cons a ks)
  let ?out' = "AList.update a (AList.update g (v a) (dict_get out a [])) out"
  have get_a: "dict_get ?out' a [] = AList.update g (v a) (dict_get out a [])"
    by (simp add: dict_get_def update_conv')
  have get_other: "k \<noteq> a \<Longrightarrow> dict_get ?out' k [] = dict_get out k []"
    by (simp add: dict_get_def update_conv')
  show ?case
    using Cons.IH [of ?out'] get_a get_other
    by (cases "k = a") (auto simp: update_conv')
qed

lemma update_append:
  "k \<notin> fst ` set al \<Longrightarrow> AList.update k v al = al @ [(k, v)]"
  by (induction al) auto

lemma fold_update_distinct:
  "distinct (map key xs) \<Longrightarrow> (\<forall>x \<in> set xs. key x \<notin> fst ` set acc) \<Longrightarrow>
     fold (\<lambda>x d. AList.update (key x) (f x) d) xs acc = acc @ map (\<lambda>x. (key x, f x)) xs"
proof (induction xs arbitrary: acc)
  case Nil
  then show ?case by simp
next
  case (Cons x xs)
  from Cons.prems have dx: "distinct (map key xs)" and nx: "key x \<notin> key ` set xs"
    and na: "key x \<notin> fst ` set acc" and others: "\<forall>y \<in> set xs. key y \<notin> fst ` set acc"
    by auto
  have step: "AList.update (key x) (f x) acc = acc @ [(key x, f x)]"
    using na by (rule update_append)
  have "key y \<notin> fst ` set (acc @ [(key x, f x)])" if "y \<in> set xs" for y
  proof -
    from that nx have "key y \<noteq> key x" by (metis imageI)
    with that others show ?thesis by simp
  qed
  then have "\<forall>y \<in> set xs. key y \<notin> fst ` set (acc @ [(key x, f x)])" by blast
  from Cons.IH [OF dx this] show ?case by (simp add: step)
qed

lemma set_dict_keys_of [simp]: "set (dict_keys_of ks) = set ks"
  by (induction ks rule: dict_keys_of.induct) auto

lemma distinct_dict_keys_of [simp]: "distinct (dict_keys_of ks)"
  by (induction ks rule: dict_keys_of.induct) auto

lemma dict_keys_of_distinct: "distinct ks \<Longrightarrow> dict_keys_of ks = ks"
  by (induction ks) (auto simp: removeAll_id)

section \<open>Integerization: what the output holds\<close>

lemma map_of_assemble:
  "map_of (assemble agent_ids distribution_result base) aid =
     (if aid \<in> set agent_ids
      then Some (AList.update ''grain'' (of_int (base aid)) (dict_get distribution_result aid []))
      else None)"
proof -
  have "dict_get (fold (\<lambda>aid out. AList.update aid (dict_get distribution_result aid []) out)
                  agent_ids []) aid [] = dict_get distribution_result aid []"
    if "aid \<in> set agent_ids"
    using that by (simp add: dict_get_def map_of_fold_update_key)
  then show ?thesis
    by (simp add: assemble_def Let_def map_of_fold_grain map_of_fold_update_key)
qed

lemma increment_loop_ge: "base aid \<le> increment_loop order base need aid"
proof (induction order arbitrary: base need)
  case Nil
  then show ?case by simp
next
  case (Cons a order)
  have "base aid \<le> (base(a := base a + 1)) aid" by simp
  also have "\<dots> \<le> increment_loop order (base(a := base a + 1)) (need - 1) aid"
    by (rule Cons.IH)
  finally show ?case by simp
qed

lemma decrement_loop_ge:
  "min_need aid \<le> base aid \<Longrightarrow> min_need aid \<le> decrement_loop order min_need base excess aid"
  by (induction order min_need base excess rule: decrement_loop.induct) auto

lemma base_floor_ge: "min_need aid \<le> base_floor reals min_need aid"
  by (simp add: base_floor_def)

lemma integer_base_ge: "min_need aid \<le> integer_base agent_ids reals min_need aid"
proof -
  have "min_need aid \<le> increment_loop order (base_floor reals min_need) need aid" for order need
    using base_floor_ge [of min_need aid reals]
      increment_loop_ge [of "base_floor reals min_need" aid order need]
    by linarith
  then show ?thesis
    by (simp add: integer_base_def Let_def decrement_loop_ge base_floor_ge)
qed

lemma ceiling_need_le_min_need:
  "\<lceil>grain_of survival_needs aid\<rceil> \<le> min_need_of survival_needs True aid"
proof (cases "survival_needs = []")
  case True
  then show ?thesis by (simp add: min_need_of_def grain_of_def dict_get_def)
next
  case False
  then show ?thesis
    by (auto simp: min_need_of_def Let_def ceiling_le_iff)
qed

lemma alloc_get_integerize_other:
  assumes "a \<in> set agents" and "resource_name \<noteq> ''grain''"
  shows "alloc_get (integerize_distribution total_resources agents distribution_result
                      survival_needs enforce_min_survival) (agent_id a) resource_name
           = alloc_get distribution_result (agent_id a) resource_name"
  using assms
  by (auto simp: alloc_get_def integerize_distribution_def Let_def map_of_assemble update_conv'
        dict_get_def split: option.splits)

lemma py_round_of_int [simp]: "py_round (of_int z) = z"
  by (simp add: py_round_def)

lemma floor_le_py_round: "\<lfloor>x\<rfloor> \<le> py_round x"
  by (simp add: py_round_def Let_def)

lemma py_round_le_floor_Suc: "py_round x \<le> \<lfloor>x\<rfloor> + 1"
  by (simp add: py_round_def Let_def)

lemma increment_loop_le:
  "distinct order \<Longrightarrow>
     increment_loop order base need aid \<le> base aid + (if aid \<in> set order then 1 else 0)"
proof (induction order arbitrary: base need)
  case Nil
  then show ?case by simp
next
  case (Cons a order)
  from Cons.prems have d: "distinct order" "a \<notin> set order" by auto
  have "increment_loop order (base(a := base a + 1)) (need - 1) aid
               \<le> (base(a := base a + 1)) aid + (if aid \<in> set order then 1 else 0)"
    by (rule Cons.IH [OF d(1)])
  with d show ?case by (auto split: if_splits)
qed

lemma of_int_sum_list_le:
  "(\<And>k. k \<in> set ks \<Longrightarrow> of_int (b k) \<le> (r k :: real)) \<Longrightarrow>
     of_int (sum_list (map b ks)) \<le> sum_list (map r ks)"
proof (induction ks)
  case Nil
  then show ?case by simp
next
  case (Cons k ks)
  have "of_int (b k) \<le> r k" by (rule Cons.prems) simp
  moreover have "of_int (sum_list (map b ks)) \<le> sum_list (map r ks)"
    by (rule Cons.IH) (simp add: Cons.prems)
  ultimately show ?case by simp
qed

lemma min_need_of_not_enforced [simp]: "min_need_of survival_needs False = (\<lambda>aid. 0)"
  by (simp add: fun_eq_iff min_need_of_def)

lemma sum_list_const_on:
  "(\<And>k. k \<in> set ks \<Longrightarrow> f k = c) \<Longrightarrow> sum_list (map f ks) = of_nat (length ks) * c"
  by (induction ks) (simp_all add: algebra_simps)

lemma integer_base_whole_values:
  assumes vals: "\<And>k. k \<in> set ids \<Longrightarrow> reals k = of_int z" and z: "0 \<le> z"
    and aid: "aid \<in> set ids"
  shows "integer_base ids reals (\<lambda>aid. 0) aid = z"
proof -
  let ?keys = "dict_keys_of ids"
  have base: "base_floor reals (\<lambda>aid. 0) k = z" if "k \<in> set ids" for k
    using vals [OF that] z by (simp add: base_floor_def)
  have "sum_list (map reals ?keys) = of_nat (length ?keys) * of_int z"
    by (rule sum_list_const_on) (simp add: vals)
  then have target: "py_round (sum_list (map reals ?keys)) = int (length ?keys) * z"
    by (metis of_int_mult of_int_of_nat_eq py_round_of_int)
  have base_sum: "sum_list (map (base_floor reals (\<lambda>aid. 0)) ?keys) = int (length ?keys) * z"
    using sum_list_const_on [of ?keys "base_floor reals (\<lambda>aid. 0)" z] base by simp
  show ?thesis
    by (simp add: integer_base_def Let_def target base_sum base aid)
qed

lemma integer_base_equal_values:
  assumes vals: "\<And>k. k \<in> set ids \<Longrightarrow> reals k = v" and v: "0 \<le> v"
    and ids: "distinct ids" and aid: "aid \<in> set ids"
  shows "integer_base ids reals (\<lambda>aid. 0) aid = \<lfloor>v\<rfloor>
         \<or> integer_base ids reals (\<lambda>aid. 0) aid = \<lfloor>v\<rfloor> + 1"
proof -
  let ?keys = "dict_keys_of ids"
  let ?base = "base_floor reals (\<lambda>aid. 0)"
  let ?frac = "frac_floor reals (\<lambda>aid. 0)"
  from v have fv: "0 \<le> \<lfloor>v\<rfloor>" by simp
  have base: "?base k = \<lfloor>v\<rfloor>" if "k \<in> set ids" for k
    using vals [OF that] fv by (simp add: base_floor_def)
  have "of_int (?base k) \<le> reals k" if "k \<in> set ?keys" for k
    using that base [of k] vals [of k] by simp
  then have "of_int (sum_list (map ?base ?keys)) \<le> sum_list (map reals ?keys)"
    by (rule of_int_sum_list_le)
  then have "sum_list (map ?base ?keys) \<le> \<lfloor>sum_list (map reals ?keys)\<rfloor>"
    by (simp add: le_floor_iff)
  also have "\<dots> \<le> py_round (sum_list (map reals ?keys))"
    by (rule floor_le_py_round)
  finally have no_excess: "\<not> py_round (sum_list (map reals ?keys)) < sum_list (map ?base ?keys)"
    by simp
  have lower: "?base aid \<le> increment_loop order ?base need aid" for order need
    by (rule increment_loop_ge)
  have upper: "increment_loop (sort_key (\<lambda>a. - ?frac a) ids) ?base need aid \<le> ?base aid + 1"
    for need
    using increment_loop_le [of "sort_key (\<lambda>a. - ?frac a) ids" ?base need aid] ids aid
    by simp
  show ?thesis
  proof (cases "sum_list (map ?base ?keys) < py_round (sum_list (map reals ?keys))")
    case True
    let ?need = "py_round (sum_list (map reals ?keys)) - sum_list (map ?base ?keys)"
    from True have "integer_base ids reals (\<lambda>aid. 0) aid
                      = increment_loop (sort_key (\<lambda>a. - ?frac a) ids) ?base ?need aid"
      by (simp add: integer_base_def Let_def)
    with lower [of "sort_key (\<lambda>a. - ?frac a) ids" ?need] upper [of ?need] base [OF aid]
    show ?thesis by linarith
  next
    case False
    with no_excess have "integer_base ids reals (\<lambda>aid. 0) aid = ?base aid"
      by (simp add: integer_base_def Let_def)
    with base [OF aid] show ?thesis by simp
  qed
qed

lemmas integerize_eval =
  integerize_distribution_def assemble_def integer_base_def base_floor_def frac_floor_def
  min_need_of_def grain_of_def dict_get_def py_round_def alloc_get_def alloc_total_def
  dict_sum_def mk_agent_def Let_def

text \<open>
  Claim C1 (integer conservation). The claim is that, with the floor enforced, the
  integer grain values sum to \<open>round (\<Sum> input)\<close> whenever the ceilings of the survival
  needs sum to at most that target. The source function walks the agents once in its
  decrement loop and takes at most one unit from each, so an excess larger than the
  number of agents above their floor is left over. Here two households hold 2 and 28
  units and need 8 and 4: the ceilings sum to 12, the target is 30, the first household
  is raised to 8, the second gives up a single unit, and the result sums to 35. The
  session's own integerization has the same loop and the same result.
\<close>

theorem integerize_total_failing_input:
  "integerize_distribution [(''grain'', 30)]
       [mk_agent 1 ''needs_based'' 8 0, mk_agent 2 ''merit_based'' 2 2]
       [(1, [(''grain'', 2)]), (2, [(''grain'', 28)])]
       [(1, [(''grain'', 8)]), (2, [(''grain'', 4)])] True
     = [(1, [(''grain'', 8)]), (2, [(''grain'', 27)])]
   \<and> integerize_allocation [mk_agent 1 ''needs_based'' 8 0, mk_agent 2 ''merit_based'' 2 2]
       [(1, [(''grain'', 8)]), (2, [(''grain'', 4)])]
       [(1, [(''grain'', 2)]), (2, [(''grain'', 28)])] True
     = [(1, [(''grain'', 8)]), (2, [(''grain'', 27)])]
   \<and> \<lceil>8 :: real\<rceil> + \<lceil>4 :: real\<rceil> \<le> py_round (2 + 28)
   \<and> py_round (2 + 28) = 30
   \<and> alloc_total [(1, [(''grain'', 8)]), (2, [(''grain'', 27)])] = 35"
  by (simp add: integerize_eval integerize_allocation_def)

text \<open>
  Claim C3 (floor monotonicity). With the floor enforced, every agent of the list
  receives an integer grain value that is at least the ceiling of its survival need:
  the decrement loop never takes an agent that is at or above its floor below it, and
  the increment loop never lowers a value. The agents of an allocation are its keys,
  so an empty allocation has none; the source returns an empty allocation unchanged,
  and the statement is about a non-empty one.
\<close>

theorem integerize_floor:
  assumes "a \<in> set agents" and "distribution_result \<noteq> []"
  shows "(\<exists>g :: int.
            alloc_get (integerize_distribution total_resources agents distribution_result
                         survival_needs True) (agent_id a) ''grain'' = Some (of_int g)
            \<and> \<lceil>grain_of survival_needs (agent_id a)\<rceil> \<le> g)
         \<and> (min_need aid \<le> base aid \<longrightarrow>
              min_need aid \<le> decrement_loop order min_need base excess aid)
         \<and> base aid \<le> increment_loop order base need aid"
proof -
  from assms have "agents \<noteq> []" by auto
  with assms show ?thesis
    using ceiling_need_le_min_need [of survival_needs "agent_id a"]
      integer_base_ge [of "min_need_of survival_needs True" "agent_id a"
        "map agent_id agents" "grain_of distribution_result"]
    by (simp add: alloc_get_def integerize_distribution_def Let_def map_of_assemble update_conv'
        decrement_loop_ge increment_loop_ge)
qed

theorem integerize_floor_witness:
  "mk_agent 1 ''needs_based'' 8 0
     \<in> set [mk_agent 1 ''needs_based'' 8 0, mk_agent 2 ''merit_based'' 2 2]
   \<and> [(1, [(''grain'', 2 :: real)]), (2 :: int, [(''grain'', 28)])] \<noteq> []
   \<and> alloc_get (integerize_distribution [(''grain'', 30)]
          [mk_agent 1 ''needs_based'' 8 0, mk_agent 2 ''merit_based'' 2 2]
          [(1, [(''grain'', 2)]), (2, [(''grain'', 28)])]
          [(1, [(''grain'', 15 / 2)]), (2, [(''grain'', 4)])] True) 1 ''grain'' = Some 8
   \<and> \<lceil>grain_of [(1, [(''grain'', 15 / 2)]), (2, [(''grain'', 4)])] 1\<rceil> = 8
   \<and> (4 :: int) \<le> 28
   \<and> decrement_loop [1, 2] (\<lambda>aid. if aid = 1 then 8 else 4)
         (\<lambda>aid. if aid = 1 then 8 else 28) 6 2 = 27
   \<and> increment_loop [1, 2] (\<lambda>aid. if aid = 1 then 8 else 28) 1 2 = 28"
  using integerize_floor [where a = "mk_agent 1 ''needs_based'' 8 0"
      and agents = "[mk_agent 1 ''needs_based'' 8 0, mk_agent 2 ''merit_based'' 2 2]"
      and distribution_result = "[(1, [(''grain'', 2)]), (2, [(''grain'', 28)])]"
      and total_resources = "[(''grain'', 30)]"
      and survival_needs = "[(1, [(''grain'', 15 / 2)]), (2, [(''grain'', 4)])]"
      and min_need = "\<lambda>aid. if aid = 1 then 8 else 4" and aid = 2
      and base = "\<lambda>aid. if aid = 1 then 8 else 28" and order = "[1, 2]" and excess = 6
      and need = 1]
  by (simp add: integerize_eval)

text \<open>
  Claim C10 (frame of integerization). For every agent of the list and every resource
  other than grain, the output holds what the input holds for that agent and resource
  (the same value, or no value where the input has none).
\<close>

theorem integerize_frame:
  assumes "a \<in> set agents" and "resource_name \<noteq> ''grain''"
  shows "alloc_get (integerize_distribution total_resources agents distribution_result
                      survival_needs enforce_min_survival) (agent_id a) resource_name
           = alloc_get distribution_result (agent_id a) resource_name"
  using assms by (rule alloc_get_integerize_other)

theorem integerize_frame_witness:
  "mk_agent 2 ''merit_based'' 2 2
     \<in> set [mk_agent 1 ''needs_based'' 8 0, mk_agent 2 ''merit_based'' 2 2]
   \<and> ''water'' \<noteq> ''grain''
   \<and> alloc_get (integerize_distribution [(''grain'', 30), (''water'', 5)]
          [mk_agent 1 ''needs_based'' 8 0, mk_agent 2 ''merit_based'' 2 2]
          [(1, [(''grain'', 53 / 5), (''water'', 3 / 2)]),
           (2, [(''grain'', 97 / 5), (''water'', 7 / 2)])]
          [(1, [(''grain'', 8)]), (2, [(''grain'', 4)])] True) 2 ''water'' = Some (7 / 2)"
  using integerize_frame [of "mk_agent 2 ''merit_based'' 2 2"
      "[mk_agent 1 ''needs_based'' 8 0, mk_agent 2 ''merit_based'' 2 2]" "''water''"
      "[(''grain'', 30), (''water'', 5)]"
      "[(1, [(''grain'', 53 / 5), (''water'', 3 / 2)]),
        (2, [(''grain'', 97 / 5), (''water'', 7 / 2)])]"
      "[(1, [(''grain'', 8)]), (2, [(''grain'', 4)])]" True]
  by (simp add: integerize_eval)

section \<open>The Equal strategy\<close>

lemma equal_inner:
  assumes "distinct (map fst total_resources)"
  shows "fold (\<lambda>(resource_name, resource_amount) d.
                  AList.update resource_name (resource_amount / n) d) total_resources []
           = map (\<lambda>(resource_name, resource_amount). (resource_name, resource_amount / n))
               total_resources"
  using fold_update_distinct [of fst total_resources "[]" "\<lambda>x. snd x / n"] assms
  by (simp add: case_prod_unfold)

lemma map_of_equal_fractional:
  "map_of (equal_fractional total_resources agents) aid =
     (if aid \<in> agent_id ` set agents
      then Some (fold (\<lambda>(resource_name, resource_amount) d.
                   AList.update resource_name (resource_amount / of_nat (length agents)) d)
                   total_resources [])
      else None)"
  by (simp add: equal_fractional_def Let_def map_of_fold_update_const)

lemma alloc_get_equal_fractional:
  assumes "distinct (map fst total_resources)" and "a \<in> set agents"
  shows "alloc_get (equal_fractional total_resources agents) (agent_id a) resource_name
           = map_option (\<lambda>amount. amount / of_nat (length agents))
               (map_of total_resources resource_name)"
  using assms
  by (simp add: alloc_get_def map_of_equal_fractional equal_inner map_of_map)

lemma grain_of_equal_fractional:
  assumes "distinct (map fst total_resources)" and "aid \<in> agent_id ` set agents"
  shows "grain_of (equal_fractional total_resources agents) aid
           = dict_get total_resources ''grain'' 0 / of_nat (length agents)"
  using assms
  by (auto simp: grain_of_def dict_get_def map_of_equal_fractional equal_inner map_of_map
        split: option.splits)

lemma equal_fractional_nonempty:
  assumes "agents \<noteq> []" shows "equal_fractional total_resources agents \<noteq> []"
proof
  assume "equal_fractional total_resources agents = []"
  note ne = assms
  from \<open>equal_fractional total_resources agents = []\<close>
  have "map_of (equal_fractional total_resources agents) (agent_id (hd agents)) = None"
    by simp
  with ne show False
    by (simp add: map_of_equal_fractional)
qed

lemma alloc_get_equal_distribution_grain:
  assumes "a \<in> set agents"
  shows "alloc_get (equal_distribution total_resources agents) (agent_id a) ''grain''
           = Some (of_int (integer_base (map agent_id agents)
                             (grain_of (equal_fractional total_resources agents))
                             (\<lambda>aid. 0) (agent_id a)))"
proof -
  from assms have ne: "agents \<noteq> []" by auto
  with assms show ?thesis
    by (simp add: equal_distribution_def integerize_distribution_def Let_def alloc_get_def
        equal_fractional_nonempty map_of_assemble update_conv')
qed

lemmas strategy_eval =
  equal_distribution_def equal_fractional_def contribution_based_distribution_def
  contribution_fractional_def contribution_step_def survival_resources_total_def
  base_survival_amount_def labor_proportion_def integerize_eval

text \<open>
  Claim C5 (Equal returns \<open>total / n\<close>), as stated, at 100 units of grain and three
  agents: the function integerizes before it returns, so the agents receive 34, 33
  and 33, none of which is \<open>100 / 3\<close>.
\<close>

theorem equal_distribution_counterexample:
  "equal_distribution [(''grain'', 100)]
       [mk_agent 1 ''egalitarian'' 3 2, mk_agent 2 ''pragmatic'' 4 2, mk_agent 3 ''altruistic'' 2 1]
     = [(1, [(''grain'', 34)]), (2, [(''grain'', 33)]), (3, [(''grain'', 33)])]
   \<and> (34 :: real) \<noteq> 100 / of_nat (length [mk_agent 1 ''egalitarian'' 3 2,
          mk_agent 2 ''pragmatic'' 4 2, mk_agent 3 ''altruistic'' 2 1])"
  by (simp add: strategy_eval)

text \<open>
  Claim C5, amended. For a non-empty agent list, the Equal strategy returns
  \<open>total / n\<close> for every agent and every resource other than grain; the grain value is
  \<open>total / n\<close> whenever that is a non-negative whole number (90 units among 3 agents give
  30 each), and for a non-negative pool and agents with distinct ids it is always one
  of the two whole numbers \<open>\<lfloor>total / n\<rfloor>\<close> and \<open>\<lfloor>total / n\<rfloor> + 1\<close>.
\<close>

theorem equal_distribution_shares:
  assumes "a \<in> set agents" and "distinct (map fst total_resources)"
  shows "(resource_name \<noteq> ''grain'' \<longrightarrow>
            alloc_get (equal_distribution total_resources agents) (agent_id a) resource_name
              = map_option (\<lambda>amount. amount / of_nat (length agents))
                  (map_of total_resources resource_name))
         \<and> (0 \<le> z \<and> dict_get total_resources ''grain'' 0 / of_nat (length agents) = of_int z \<longrightarrow>
              alloc_get (equal_distribution total_resources agents) (agent_id a) ''grain''
                = Some (dict_get total_resources ''grain'' 0 / of_nat (length agents)))
         \<and> (0 \<le> dict_get total_resources ''grain'' 0 \<and> distinct (map agent_id agents) \<longrightarrow>
              (\<exists>g :: int.
                 alloc_get (equal_distribution total_resources agents) (agent_id a) ''grain''
                   = Some (of_int g)
                 \<and> (g = \<lfloor>dict_get total_resources ''grain'' 0 / of_nat (length agents)\<rfloor>
                    \<or> g = \<lfloor>dict_get total_resources ''grain'' 0 / of_nat (length agents)\<rfloor> + 1)))"
proof (intro conjI impI)
  from assms have ne: "agents \<noteq> []" by auto
  let ?v = "dict_get total_resources ''grain'' 0 / of_nat (length agents)"
  have vals: "grain_of (equal_fractional total_resources agents) k = ?v"
    if "k \<in> set (map agent_id agents)" for k
    using that assms(2) by (simp add: grain_of_equal_fractional)
  have aid: "agent_id a \<in> set (map agent_id agents)"
    using assms(1) by simp
  {
    assume "resource_name \<noteq> ''grain''"
    then have "alloc_get (equal_distribution total_resources agents) (agent_id a) resource_name
                 = alloc_get (equal_fractional total_resources agents) (agent_id a) resource_name"
      using ne assms(1) by (simp add: equal_distribution_def alloc_get_integerize_other)
    then show "alloc_get (equal_distribution total_resources agents) (agent_id a) resource_name
                 = map_option (\<lambda>amount. amount / of_nat (length agents))
                     (map_of total_resources resource_name)"
      using assms by (simp add: alloc_get_equal_fractional)
  }
  {
    assume "0 \<le> z \<and> ?v = of_int z"
    then have "integer_base (map agent_id agents)
                 (grain_of (equal_fractional total_resources agents)) (\<lambda>aid. 0) (agent_id a) = z"
      using vals aid by (intro integer_base_whole_values) simp_all
    then show "alloc_get (equal_distribution total_resources agents) (agent_id a) ''grain''
                 = Some ?v"
      using \<open>0 \<le> z \<and> ?v = of_int z\<close> assms(1)
      by (simp add: alloc_get_equal_distribution_grain)
  }
  {
    assume h: "0 \<le> dict_get total_resources ''grain'' 0 \<and> distinct (map agent_id agents)"
    then have "0 \<le> ?v" by simp
    with h vals aid
    have "integer_base (map agent_id agents)
            (grain_of (equal_fractional total_resources agents)) (\<lambda>aid. 0) (agent_id a) = \<lfloor>?v\<rfloor>
          \<or> integer_base (map agent_id agents)
            (grain_of (equal_fractional total_resources agents)) (\<lambda>aid. 0) (agent_id a) = \<lfloor>?v\<rfloor> + 1"
      by (intro integer_base_equal_values) simp_all
    then show "\<exists>g :: int.
                 alloc_get (equal_distribution total_resources agents) (agent_id a) ''grain''
                   = Some (of_int g) \<and> (g = \<lfloor>?v\<rfloor> \<or> g = \<lfloor>?v\<rfloor> + 1)"
      using assms(1) by (simp add: alloc_get_equal_distribution_grain)
  }
qed

theorem equal_distribution_shares_witness:
  "mk_agent 2 ''pragmatic'' 4 2
     \<in> set [mk_agent 1 ''egalitarian'' 3 2, mk_agent 2 ''pragmatic'' 4 2, mk_agent 3 ''altruistic'' 2 1]
   \<and> distinct (map fst [(''grain'', 90 :: real), (''water'', 10)])
   \<and> ''water'' \<noteq> ''grain''
   \<and> (0 :: int) \<le> 30
   \<and> dict_get [(''grain'', 90 :: real), (''water'', 10)] ''grain'' 0 / of_nat 3 = of_int 30
   \<and> distinct (map agent_id [mk_agent 1 ''egalitarian'' 3 2, mk_agent 2 ''pragmatic'' 4 2,
        mk_agent 3 ''altruistic'' 2 1])
   \<and> alloc_get (equal_distribution [(''grain'', 90), (''water'', 10)]
        [mk_agent 1 ''egalitarian'' 3 2, mk_agent 2 ''pragmatic'' 4 2, mk_agent 3 ''altruistic'' 2 1])
        2 ''water'' = Some (10 / 3)
   \<and> alloc_get (equal_distribution [(''grain'', 90), (''water'', 10)]
        [mk_agent 1 ''egalitarian'' 3 2, mk_agent 2 ''pragmatic'' 4 2, mk_agent 3 ''altruistic'' 2 1])
        2 ''grain'' = Some 30"
  using equal_distribution_shares [of "mk_agent 2 ''pragmatic'' 4 2"
      "[mk_agent 1 ''egalitarian'' 3 2, mk_agent 2 ''pragmatic'' 4 2, mk_agent 3 ''altruistic'' 2 1]"
      "[(''grain'', 90), (''water'', 10)]" "''water''" 30]
  by (simp add: dict_get_def mk_agent_def)

text \<open>
  Claim C6 (degenerate contribution). When every agent has a labor force of 0, the
  ContributionBased strategy returns exactly what the Equal strategy returns, whatever
  the survival map.
\<close>

theorem contribution_degenerate_equal:
  assumes "\<forall>a \<in> set agents. labor_force a = 0"
  shows "contribution_based_distribution total_resources agents minimum_survival_resources
           = equal_distribution total_resources agents"
proof -
  from assms have "sum_list (map labor_force agents) = 0"
    by (induction agents) simp_all
  then show ?thesis
    by (simp add: contribution_based_distribution_def equal_distribution_def)
qed

theorem contribution_degenerate_equal_witness:
  "labor_force (mk_agent 1 ''egalitarian'' 3 0) = 0
   \<and> labor_force (mk_agent 2 ''pragmatic'' 4 0) = 0
   \<and> contribution_based_distribution [(''grain'', 45)]
        [mk_agent 1 ''egalitarian'' 3 0, mk_agent 2 ''pragmatic'' 4 0]
        [(1, [(''grain'', 3)]), (2, [(''grain'', 4)])]
      = [(1, [(''grain'', 23)]), (2, [(''grain'', 22)])]
   \<and> equal_distribution [(''grain'', 45)]
        [mk_agent 1 ''egalitarian'' 3 0, mk_agent 2 ''pragmatic'' 4 0]
      = [(1, [(''grain'', 23)]), (2, [(''grain'', 22)])]"
  using contribution_degenerate_equal [of "[mk_agent 1 ''egalitarian'' 3 0, mk_agent 2 ''pragmatic'' 4 0]"
      "[(''grain'', 45)]" "[(1, [(''grain'', 3)]), (2, [(''grain'', 4)])]"]
  by (simp add: strategy_eval)

section \<open>The Gini coefficient\<close>

lemma sum_list_insort: "sum_list (insort x xs) = x + sum_list (xs :: real list)"
  by (induction xs) simp_all

lemma sum_list_sort: "sum_list (sort xs) = sum_list (xs :: real list)"
  by (induction xs) (simp_all add: sum_list_insort)

lemma sum_list_upt_sum: "sum_list (map f [0..<n]) = (\<Sum>i<n. f i)"
  by (simp add: sum_list_distinct_conv_sum_set lessThan_atLeast0)

lemma all_zero_sum_list: "\<forall>x \<in> set xs. x = (0 :: real) \<Longrightarrow> sum_list xs = 0"
  by (induction xs) simp_all

lemma nonneg_sum_list_zero:
  "\<forall>x \<in> set xs. (0 :: real) \<le> x \<Longrightarrow> sum_list xs = 0 \<Longrightarrow> \<forall>x \<in> set xs. x = 0"
  by (simp add: sum_list_nonneg_eq_0_iff)

lemma gini_formula:
  assumes "xs \<noteq> []" and "sum_list xs \<noteq> 0"
  shows "calculate_gini_coefficient xs
           = 2 * (\<Sum>i<length xs. (of_nat i + 1) * sort xs ! i) / (of_nat (length xs) * sum_list xs)
             - (of_nat (length xs) + 1) / of_nat (length xs)"
proof -
  from assms(1) have "sort xs \<noteq> []"
    by (metis length_0_conv length_sort)
  with assms show ?thesis
    by (simp add: calculate_gini_coefficient_def Let_def sum_list_sort sum_list_upt_sum
        mult.commute)
qed

text \<open>
  Claim C4 (Gini coefficient). The function returns 0 for the empty list and for every
  all-zero list. For every other list of non-negative values, and more generally for
  every non-empty list whose sum is not 0, it returns
  \<open>2 \<cdot> (\<Sum>i<n. (i + 1) \<cdot> x\<^sub>i) / (n \<cdot> \<Sum>x) - (n + 1) / n\<close> with \<open>x\<close> sorted ascending; on
  \<open>[0, 0, 30]\<close> that is \<open>2 / 3\<close>.
\<close>

theorem gini_coefficient_formula:
  "calculate_gini_coefficient [] = 0
   \<and> ((\<forall>x \<in> set xs. x = 0) \<longrightarrow> calculate_gini_coefficient xs = 0)
   \<and> (xs \<noteq> [] \<and> (sum_list xs \<noteq> 0 \<or> (\<forall>x \<in> set xs. 0 \<le> x) \<and> (\<exists>x \<in> set xs. x \<noteq> 0)) \<longrightarrow>
        calculate_gini_coefficient xs
          = 2 * (\<Sum>i<length xs. (of_nat i + 1) * sort xs ! i) / (of_nat (length xs) * sum_list xs)
            - (of_nat (length xs) + 1) / of_nat (length xs))
   \<and> calculate_gini_coefficient [0, 0, 30] = 2 / 3"
proof (intro conjI impI)
  show "calculate_gini_coefficient [] = 0"
    by (simp add: calculate_gini_coefficient_def)
  show "calculate_gini_coefficient xs = 0" if "\<forall>x \<in> set xs. x = 0"
    using all_zero_sum_list [OF that] by (simp add: calculate_gini_coefficient_def)
  show "calculate_gini_coefficient xs
          = 2 * (\<Sum>i<length xs. (of_nat i + 1) * sort xs ! i) / (of_nat (length xs) * sum_list xs)
            - (of_nat (length xs) + 1) / of_nat (length xs)"
    if h: "xs \<noteq> [] \<and> (sum_list xs \<noteq> 0 \<or> (\<forall>x \<in> set xs. 0 \<le> x) \<and> (\<exists>x \<in> set xs. x \<noteq> 0))"
  proof -
    from h have "sum_list xs \<noteq> 0"
      using nonneg_sum_list_zero [of xs] by blast
    with h show ?thesis by (simp add: gini_formula)
  qed
  show "calculate_gini_coefficient [0, 0, 30] = 2 / 3"
    by (simp add: calculate_gini_coefficient_def Let_def)
qed

theorem gini_coefficient_formula_witness:
  "calculate_gini_coefficient [0, 0] = 0
   \<and> [0, 0, 30 :: real] \<noteq> []
   \<and> sum_list [0, 0, 30 :: real] \<noteq> 0
   \<and> calculate_gini_coefficient [0, 0, 30] = 2 * ((0 + 1) * 0 + (1 + 1) * 0 + (2 + 1) * 30) / (3 * 30) - (3 + 1) / 3
   \<and> calculate_gini_coefficient [15, 5, 10] = 2 * ((0 + 1) * 5 + (1 + 1) * 10 + (2 + 1) * 15) / (3 * 30) - (3 + 1) / 3"
  using gini_coefficient_formula [of "[0, 0]"] gini_coefficient_formula [of "[0, 0, 30]"]
    gini_coefficient_formula [of "[15, 5, 10]"]
  by (simp add: lessThan_Suc numeral_3_eq_3)

section \<open>Re-normalization\<close>

lemma dict_sum_scale: "dict_sum (map (\<lambda>(resource, v). (resource, v * c)) m) = dict_sum m * c"
  by (induction m) (auto simp: dict_sum_def algebra_simps)

lemma alloc_total_scale: "alloc_total (scale_allocation c allocation) = alloc_total allocation * c"
  by (induction allocation)
    (auto simp: alloc_total_def scale_allocation_def dict_sum_scale algebra_simps)

text \<open>
  Claim C8 (re-normalization gives the pool total exactly), as stated, at an allocation
  of 20 and 30.005 units against 50 units of grain: the difference is within the
  tolerance of 0.01 that the function tests first, the allocation is returned as it is,
  and its total is not 50.
\<close>

theorem validate_and_optimize_counterexample:
  "validate_and_optimize 50 [(1, [(''grain'', 20)]), (2, [(''grain'', 30 + 1 / 200)])]
     = Inr [(1, [(''grain'', 20)]), (2, [(''grain'', 30 + 1 / 200)])]
   \<and> 0 < alloc_total [(1, [(''grain'', 20)]), (2, [(''grain'', 30 + 1 / 200)])]
   \<and> alloc_total [(1, [(''grain'', 20)]), (2, [(''grain'', 30 + 1 / 200)])] \<noteq> 50"
  by (simp add: validate_and_optimize_def alloc_total_def dict_sum_def)

text \<open>
  Claim C8, amended. For every allocation with positive total: when the total differs
  from the pool's grain amount by more than 0.01, the result is every entry scaled by
  \<open>total_grain / current_sum\<close> and its grand total is the grain amount exactly; otherwise
  the allocation is returned unchanged.
\<close>

theorem validate_and_optimize_rescales:
  assumes "0 < alloc_total allocation"
  shows "(1 / 100 < \<bar>alloc_total allocation - total_grain\<bar> \<longrightarrow>
            validate_and_optimize total_grain allocation
              = Inr (scale_allocation (total_grain / alloc_total allocation) allocation)
            \<and> alloc_total (scale_allocation (total_grain / alloc_total allocation) allocation)
                = total_grain)
         \<and> (\<bar>alloc_total allocation - total_grain\<bar> \<le> 1 / 100 \<longrightarrow>
              validate_and_optimize total_grain allocation = Inr allocation)"
  using assms
  by (auto simp: validate_and_optimize_def Let_def scale_allocation_def [symmetric]
      alloc_total_scale)

theorem validate_and_optimize_rescales_witness:
  "0 < alloc_total [(1, [(''grain'', 20)]), (2, [(''grain'', 40)])]
   \<and> 1 / 100 < \<bar>alloc_total [(1, [(''grain'', 20)]), (2, [(''grain'', 40)])] - 50\<bar>
   \<and> validate_and_optimize 50 [(1, [(''grain'', 20)]), (2, [(''grain'', 40)])]
       = Inr [(1, [(''grain'', 50 / 3)]), (2, [(''grain'', 100 / 3)])]
   \<and> alloc_total [(1, [(''grain'', 50 / 3)]), (2, [(''grain'', 100 / 3)])] = 50
   \<and> 0 < alloc_total [(1, [(''grain'', 20)]), (2, [(''grain'', 30 + 1 / 200)])]
   \<and> \<bar>alloc_total [(1, [(''grain'', 20)]), (2, [(''grain'', 30 + 1 / 200)])] - 50\<bar> \<le> 1 / 100
   \<and> validate_and_optimize 50 [(1, [(''grain'', 20)]), (2, [(''grain'', 30 + 1 / 200)])]
       = Inr [(1, [(''grain'', 20)]), (2, [(''grain'', 30 + 1 / 200)])]"
  using validate_and_optimize_rescales [of "[(1, [(''grain'', 20)]), (2, [(''grain'', 40)])]" 50]
    validate_and_optimize_rescales [of "[(1, [(''grain'', 20)]), (2, [(''grain'', 30 + 1 / 200)])]" 50]
  by (simp add: alloc_total_def dict_sum_def scale_allocation_def)

section \<open>The persuasion round\<close>

lemma fold_count:
  "fold (\<lambda>x c. if P x then c + 1 else c) xs (n :: nat) = n + length (filter P xs)"
  by (induction xs arbitrary: n) simp_all

lemma evaluate_persuasion_effect_count:
  "evaluate_persuasion_effect persuasion others principle_name = convinced principle_name others"
  by (simp add: evaluate_persuasion_effect_def convinced_def fold_count)

lemma majority_threshold: "(n div 2 + 1 \<le> (k :: nat)) = (n < 2 * k)"
  by arith

lemmas persuasion_eval =
  moderate_principle_discussion_def evaluate_persuasion_effect_def example_normalize_def
  example_persuasion_def supporters_of_def non_supporters_of_def convinced_def dict_get_def
  mk_agent_def Let_def

text \<open>
  Claim C7 (adoption iff supporters plus convinced exceed half), as stated, at three
  agents of which one supports \<open>needs_first\<close> and the two others are needs-based and
  altruistic: both are convinced by the table, 1 + 2 exceeds 3 / 2, and yet the
  principle is dropped, because the function gives up on a principle with at most one
  supporter before any persuasion.
\<close>

theorem persuasion_adoption_counterexample:
  "moderate_principle_discussion example_normalize example_persuasion
       [mk_agent 1 ''egalitarian'' 3 2, mk_agent 2 ''needs_based'' 4 1, mk_agent 3 ''altruistic'' 2 1]
       Needs_first [(1, [''needs'']), (2, [''merit'']), (3, [''growth''])]
     = Inr Insufficient_support
   \<and> supporters_of example_normalize [(1, [''needs'']), (2, [''merit'']), (3, [''growth''])] Needs_first
        [mk_agent 1 ''egalitarian'' 3 2, mk_agent 2 ''needs_based'' 4 1, mk_agent 3 ''altruistic'' 2 1]
       = [mk_agent 1 ''egalitarian'' 3 2]
   \<and> evaluate_persuasion_effect ''please support this principle''
        (non_supporters_of example_normalize [(1, [''needs'']), (2, [''merit'']), (3, [''growth''])]
           Needs_first
           [mk_agent 1 ''egalitarian'' 3 2, mk_agent 2 ''needs_based'' 4 1,
            mk_agent 3 ''altruistic'' 2 1])
        Needs_first = 2
   \<and> real (length [mk_agent 1 ''egalitarian'' 3 2, mk_agent 2 ''needs_based'' 4 1,
        mk_agent 3 ''altruistic'' 2 1]) / 2 < real (1 + 2)"
  by (simp add: persuasion_eval)

text \<open>
  Claim C7, amended. In the persuasion round over \<open>n\<close> agents, a disputed principle is
  adopted if and only if it has at least two supporters and supporters plus convinced
  exceed \<open>n / 2\<close>; convinced is exactly the number of non-supporting agents whose value
  type the table aligns with the principle (for \<open>needs_first\<close>: needs-based and
  altruistic), whatever the persuasion text.
\<close>

theorem persuasion_adoption:
  assumes "\<forall>agent \<in> set agents. map_of principle_preferences (agent_id agent) \<noteq> None"
  shows "((\<exists>total_support.
             moderate_principle_discussion normalize_name generate_persuasion agents
               principle_name principle_preferences = Inr (Adopted total_support))
          \<longleftrightarrow> 2 \<le> length (supporters_of normalize_name principle_preferences principle_name agents)
              \<and> length agents
                  < 2 * (length (supporters_of normalize_name principle_preferences principle_name agents)
                         + convinced principle_name
                             (non_supporters_of normalize_name principle_preferences principle_name agents)))
         \<and> evaluate_persuasion_effect persuasion others principle_name
             = length (filter (\<lambda>agent. value_aligned principle_name (value_type agent)) others)
         \<and> (value_aligned Needs_first v \<longleftrightarrow> v = ''needs_based'' \<or> v = ''altruistic'')"
proof -
  let ?s = "supporters_of normalize_name principle_preferences principle_name agents"
  let ?o = "non_supporters_of normalize_name principle_preferences principle_name agents"
  from assms have no_error:
    "\<not> (\<exists>agent \<in> set agents. map_of principle_preferences (agent_id agent) = None)"
    by simp
  have result: "moderate_principle_discussion normalize_name generate_persuasion agents
                  principle_name principle_preferences
                = (if length ?s \<le> 1 then Inr Insufficient_support
                   else if length agents div 2 + 1 \<le> length ?s + convinced principle_name ?o
                   then Inr (Adopted (length ?s + convinced principle_name ?o))
                   else Inr (Not_adopted (length ?s + convinced principle_name ?o)))"
    unfolding moderate_principle_discussion_def Let_def if_not_P [OF no_error]
      supporters_of_def [symmetric] non_supporters_of_def [symmetric]
      evaluate_persuasion_effect_count
    by auto
  show ?thesis
    by (auto simp: result majority_threshold evaluate_persuasion_effect_count convinced_def)
qed

theorem persuasion_adoption_witness:
  "map_of [(1, [''needs'']), (2, [''needs'', ''merit'']), (3, [''growth'']), (4, [''merit''])] 1 \<noteq> None
   \<and> map_of [(1, [''needs'']), (2, [''needs'', ''merit'']), (3, [''growth'']), (4, [''merit''])] 2 \<noteq> None
   \<and> map_of [(1, [''needs'']), (2, [''needs'', ''merit'']), (3, [''growth'']), (4, [''merit''])] 3 \<noteq> None
   \<and> map_of [(1 :: int, [''needs'']), (2, [''needs'', ''merit'']), (3, [''growth'']), (4, [''merit''])] 4 \<noteq> None
   \<and> moderate_principle_discussion example_normalize example_persuasion
        [mk_agent 1 ''egalitarian'' 3 2, mk_agent 2 ''needs_based'' 4 1,
         mk_agent 3 ''altruistic'' 2 1, mk_agent 4 ''merit_based'' 2 2]
        Needs_first
        [(1, [''needs'']), (2, [''needs'', ''merit'']), (3, [''growth'']), (4, [''merit''])]
       = Inr (Adopted 3)
   \<and> (2 :: nat) \<le> 2 \<and> (4 :: nat) < 2 * (2 + 1)
   \<and> evaluate_persuasion_effect ''any text''
        [mk_agent 3 ''altruistic'' 2 1, mk_agent 4 ''merit_based'' 2 2] Needs_first = 1"
  using persuasion_adoption [of
      "[mk_agent 1 ''egalitarian'' 3 2, mk_agent 2 ''needs_based'' 4 1,
        mk_agent 3 ''altruistic'' 2 1, mk_agent 4 ''merit_based'' 2 2]"
      "[(1, [''needs'']), (2, [''needs'', ''merit'']), (3, [''growth'']), (4, [''merit''])]"
      example_normalize example_persuasion Needs_first "''any text''"
      "[mk_agent 3 ''altruistic'' 2 1, mk_agent 4 ''merit_based'' 2 2]" "''altruistic''"]
  by (simp add: persuasion_eval)

section \<open>The fallback of a failed session\<close>

lemma create_fallback_proposal_distinct:
  assumes "agents \<noteq> []" and "distinct (map agent_id agents)"
  shows "create_fallback_proposal agents total_grain = Inr (equal_grain_shares agents total_grain)"
  using assms fold_update_distinct [of agent_id agents "[]"
      "\<lambda>agent. [(''grain'', total_grain / of_nat (length agents))]"]
  by (simp add: create_fallback_proposal_def equal_grain_shares_def Let_def)

lemma alloc_total_equal_grain_shares:
  "agents \<noteq> [] \<Longrightarrow> alloc_total (equal_grain_shares agents total_grain) = total_grain"
proof -
  have "sum_list (map (\<lambda>agent. c) xs) = of_nat (length xs) * c" for c :: real and xs :: "agent list"
    by (induction xs) (simp_all add: algebra_simps)
  then show "agents \<noteq> [] \<Longrightarrow> alloc_total (equal_grain_shares agents total_grain) = total_grain"
    by (simp add: alloc_total_def equal_grain_shares_def dict_sum_def comp_def)
qed

lemma run_when_stage_raises:
  assumes "stage_raises st"
  shows "\<exists>completed. run_collaborative_negotiation st agents total_resources
           = error_fallback agents (dict_get total_resources ''grain'' 0) completed"
  using assms
  by (auto simp: run_collaborative_negotiation_def stage_raises_def Let_def split: sum.splits)

lemmas session_eval =
  run_collaborative_negotiation_def error_fallback_def create_fallback_proposal_def
  stage_raises_def example_stages_def equal_grain_shares_def alloc_total_def dict_sum_def
  dict_get_def mk_agent_def Let_def

text \<open>
  Claim C9 (the fallback's total is the pool total), as stated, at a pool of 90 units of
  grain and 10 of water and a session whose third stage raises: the fallback shares
  out the grain only, so its total is 90 and the pool's is 100.
\<close>

theorem fallback_totality_counterexample:
  "stage_raises example_stages
   \<and> run_collaborative_negotiation example_stages
        [mk_agent 1 ''egalitarian'' 3 2, mk_agent 2 ''needs_based'' 4 1, mk_agent 3 ''altruistic'' 2 1]
        [(''grain'', 90), (''water'', 10)]
      = Inr ([(1, [(''grain'', 30)]), (2, [(''grain'', 30)]), (3, [(''grain'', 30)])],
             \<lparr>success = False, session_method = ''error_fallback'',
              stages_completed = [''principles'', ''framework'']\<rparr>)
   \<and> alloc_total [(1, [(''grain'', 30)]), (2, [(''grain'', 30)]), (3, [(''grain'', 30)])] = 90
   \<and> dict_sum [(''grain'', 90), (''water'', 10)] = 100"
  by (simp add: session_eval)

text \<open>
  Claim C9, amended. For every non-empty list of agents with distinct ids and every
  pool, if a stage raises, the session still returns a complete allocation and reports
  failure: every agent holds \<open>total_grain / n\<close> of grain, and the total is the pool's
  grain amount, which is the pool total when grain is the pool's only resource.
\<close>

theorem fallback_totality:
  assumes "agents \<noteq> []" and "distinct (map agent_id agents)" and "stage_raises st"
  shows "\<exists>negotiation_data.
           run_collaborative_negotiation st agents total_resources
             = Inr (equal_grain_shares agents (dict_get total_resources ''grain'' 0), negotiation_data)
           \<and> \<not> success negotiation_data
           \<and> alloc_total (equal_grain_shares agents (dict_get total_resources ''grain'' 0))
               = dict_get total_resources ''grain'' 0
           \<and> (total_resources = [(''grain'', g)] \<longrightarrow>
                alloc_total (equal_grain_shares agents (dict_get total_resources ''grain'' 0))
                  = dict_sum total_resources)"
proof -
  from run_when_stage_raises [OF assms(3)] obtain completed where
    "run_collaborative_negotiation st agents total_resources
       = error_fallback agents (dict_get total_resources ''grain'' 0) completed"
    by blast
  moreover have "alloc_total (equal_grain_shares agents (dict_get total_resources ''grain'' 0))
                   = dict_get total_resources ''grain'' 0"
    using assms(1) by (rule alloc_total_equal_grain_shares)
  ultimately show ?thesis
    using assms(1,2)
    by (auto simp: error_fallback_def create_fallback_proposal_distinct dict_sum_def dict_get_def)
qed

theorem fallback_totality_witness:
  "[mk_agent 1 ''egalitarian'' 3 2, mk_agent 2 ''needs_based'' 4 1] \<noteq> []
   \<and> distinct (map agent_id [mk_agent 1 ''egalitarian'' 3 2, mk_agent 2 ''needs_based'' 4 1])
   \<and> stage_raises example_stages
   \<and> [(''grain'', 45 :: real)] = [(''grain'', 45)]
   \<and> run_collaborative_negotiation example_stages
        [mk_agent 1 ''egalitarian'' 3 2, mk_agent 2 ''needs_based'' 4 1] [(''grain'', 45)]
      = Inr ([(1, [(''grain'', 45 / 2)]), (2, [(''grain'', 45 / 2)])],
             \<lparr>success = False, session_method = ''error_fallback'',
              stages_completed = [''principles'', ''framework'']\<rparr>)
   \<and> alloc_total [(1, [(''grain'', 45 / 2)]), (2, [(''grain'', 45 / 2)])]
      = dict_sum [(''grain'', 45)]"
  using fallback_totality [of "[mk_agent 1 ''egalitarian'' 3 2, mk_agent 2 ''needs_based'' 4 1]"
      example_stages "[(''grain'', 45)]" 45]
  by (simp add: session_eval)

section \<open>Conservation of the pool before integerization\<close>














subsection \<open>Allocations without repeated keys\<close>

text \<open>The loops of the strategies set one entry at a time. On an allocation that holds
  no key twice, setting an entry changes the grand total by the difference between the
  new and the old amount and leaves every other entry as it is.\<close>

lemma wf_alloc_Nil [simp]: "wf_alloc []"
  by (simp add: wf_alloc_def)











lemma amount_of_alloc_get: "alloc_get d aid r = Some v \<Longrightarrow> amount_of d aid r = v"
  by (auto simp: alloc_get_def amount_of_def dict_get_def split: option.splits)




subsection \<open>NeedsBased: what the three stages hand out\<close>

























subsection \<open>Pragmatic: the blend of three allocations\<close>



subsection \<open>Altruistic: the survival stage\<close>













subsection \<open>The strategies at concrete inputs\<close>

lemmas altruistic_eval =
  altruistic_distribution_def leftover_share_def survival_first_def share_of_ratio_def
  descending_key_def dependency_ratio_def

lemmas needs_based_eval =
  needs_based_distribution_def needs_based_fractional_def minimum_line_def per_capita_of_def
  additional_step_def basic_step_def total_special_need_weight_def add_amount_def amount_of_def
  pragmatic_distribution_def











subsection \<open>The claim\<close>


text \<open>
  Inputs outside the conditions of the amended claim, which neither promises nor
  denies conservation there. With a leftover after the survival stage the Altruistic
  strategy hands out 76.5 of 100, where the comment of its second loop says that the
  remaining resources are distributed. With no household of labor density below one
  half the NeedsBased strategy hands out 94 of 100, where the comment of its second
  stage splits the tranche into 50, 30 and 20 percent; the Pragmatic strategy blends
  that allocation with the two others.
\<close>

lemma altruistic_with_leftover:
  "altruistic_distribution [(''grain'', 100)]
       [mk_agent 1 ''altruistic'' 2 1, mk_agent 2 ''egalitarian'' 2 1]
       [(1, [(''grain'', 3)]), (2, [(''grain'', 3)])]
     = Inr [(1, [(''grain'', 50)]), (2, [(''grain'', 53 / 2)])]
   \<and> alloc_total [(1, [(''grain'', 50)]), (2, [(''grain'', 53 / 2)])] = 153 / 2
   \<and> dict_sum [(''grain'', 100)] = 100"
  by (simp add: altruistic_eval strategy_eval)

lemma needs_based_without_dependents:
  "needs_based_fractional [(''grain'', 100)]
       [mk_agent 1 ''needs_based'' 2 2, mk_agent 2 ''egalitarian'' 2 2]
     = Inr [(1, [(''grain'', 47)]), (2, [(''grain'', 47)])]
   \<and> alloc_total [(1, [(''grain'', 47)]), (2, [(''grain'', 47)])] = 94"
  by (simp add: needs_based_eval strategy_eval)

lemma pragmatic_without_dependents:
  "pragmatic_distribution [(''grain'', 100)]
       [mk_agent 1 ''needs_based'' 2 2, mk_agent 2 ''egalitarian'' 2 2]
       [(1, [(''grain'', 4)]), (2, [(''grain'', 4)])]
     = Inr [(1, [(''grain'', 244 / 5)]), (2, [(''grain'', 244 / 5)])]
   \<and> alloc_total [(1, [(''grain'', 244 / 5)]), (2, [(''grain'', 244 / 5)])] = 488 / 5"
  by (simp add: needs_based_eval strategy_eval)



end
